theory Spec2Isabelle
  imports
    Complex_Main
    "HOL-Library.Sublist"
    "HOL-Library.AList"
    "HOL-Library.Product_Lexorder"
    "HOL-Library.List_Lexorder"
begin

section \<open>The Psi4 harness of QCEngine (qcengine/programs/psi4.py)\<close>

text \<open>
  The theory embeds \<^verbatim>\<open>Psi4Harness.compute\<close> and the helpers it calls. Python values that
  travel through dictionaries are JSON-like values; a Python \<^verbatim>\<open>dict\<close> is an association list
  (looked up with \<^const>\<open>map_of\<close>, stored with \<^const>\<open>AList.update\<close>, popped with
  \<^const>\<open>AList.delete\<close>). Python floats are idealised as exact rationals.
\<close>

subsection \<open>Python values\<close>

datatype json =
    JNull
  | JBool bool
  | JInt int
  | JNum rat
  | JStr string
  | JArr "json list"
  | JObj "(string \<times> json) list"

type_synonym pydict = "(string \<times> json) list"

text \<open>The exceptions that can leave \<^verbatim>\<open>compute\<close>: the four kinds of the harness (each carries
  the \<^verbatim>\<open>error_message\<close> it was raised with) and the Python faults of the statements in
  between. \<open>ModuleNotFoundError\<close> is raised when the engine is not found or cannot be
  imported, \<open>UntaggedBuild\<close> is the \<^verbatim>\<open>TypeError\<close> of \<^verbatim>\<open>get_version\<close> for a build without
  tags, and \<open>External\<close> names an exception raised inside a collaborator.\<close>

datatype error =
    ResourceError json
  | RandomError json
  | InputError json
  | UnknownError json
  | KeyError string
  | TypeError
  | AttributeError
  | ModuleNotFoundError
  | UntaggedBuild
  | External string

text \<open>Truth value of a Python object, as \<^verbatim>\<open>if x:\<close> and \<^verbatim>\<open>x or y\<close> test it.\<close>

fun truthy :: "json \<Rightarrow> bool" where
  "truthy JNull = False"
| "truthy (JBool b) = b"
| "truthy (JInt i) = (i \<noteq> 0)"
| "truthy (JNum r) = (r \<noteq> 0)"
| "truthy (JStr s) = (s \<noteq> [])"
| "truthy (JArr xs) = (xs \<noteq> [])"
| "truthy (JObj d) = (d \<noteq> [])"

text \<open>\<^verbatim>\<open>needle in haystack\<close> on two strings: \<^verbatim>\<open>needle\<close> occurs as a contiguous substring.\<close>

fun str_in :: "string \<Rightarrow> string \<Rightarrow> bool" where
  "str_in needle [] = (needle = [])"
| "str_in needle (c # cs) = (prefix needle (c # cs) \<or> str_in needle cs)"

text \<open>\<^verbatim>\<open>s in x\<close> for a string \<^verbatim>\<open>s\<close>: substring test on a string, key test on a dict, element
  test on a list, and a \<^verbatim>\<open>TypeError\<close> on \<^verbatim>\<open>None\<close>, booleans and numbers.\<close>

fun py_in :: "string \<Rightarrow> json \<Rightarrow> error + bool" where
  "py_in s (JStr t) = Inr (str_in s t)"
| "py_in s (JObj d) = Inr (map_of d s \<noteq> None)"
| "py_in s (JArr xs) = Inr (List.member xs (JStr s))"
| "py_in s JNull = Inl TypeError"
| "py_in s (JBool b) = Inl TypeError"
| "py_in s (JInt i) = Inl TypeError"
| "py_in s (JNum r) = Inl TypeError"

text \<open>A chain \<^verbatim>\<open>(s1 in x) or (s2 in x) or ...\<close>, evaluated left to right.\<close>

fun py_any_in :: "string list \<Rightarrow> json \<Rightarrow> error + bool" where
  "py_any_in [] x = Inr False"
| "py_any_in (s # ss) x =
     (case py_in s x of
        Inl e \<Rightarrow> Inl e
      | Inr b \<Rightarrow> if b then Inr True else py_any_in ss x)"

subsection \<open>Dictionary and numeric primitives\<close>

text \<open>Sequencing of statements that may raise: the first exception ends the block.\<close>

definition seq :: "error + 'a \<Rightarrow> ('a \<Rightarrow> error + 'b) \<Rightarrow> error + 'b" where
  "seq m f = (case m of Inl e \<Rightarrow> Inl e | Inr x \<Rightarrow> f x)"

text \<open>\<^verbatim>\<open>x[k]\<close> with a string key: a missing key is a \<^verbatim>\<open>KeyError\<close>, and every object that is
  not a dict refuses a string subscript with a \<^verbatim>\<open>TypeError\<close>.\<close>

fun getitem :: "json \<Rightarrow> string \<Rightarrow> error + json" where
  "getitem (JObj d) k = (case map_of d k of None \<Rightarrow> Inl (KeyError k) | Some v \<Rightarrow> Inr v)"
| "getitem x k = Inl TypeError"

text \<open>\<^verbatim>\<open>x[k] = v\<close> with a string key.\<close>

fun setitem :: "json \<Rightarrow> string \<Rightarrow> json \<Rightarrow> error + json" where
  "setitem (JObj d) k v = Inr (JObj (AList.update k v d))"
| "setitem x k v = Inl TypeError"

text \<open>\<^verbatim>\<open>x[k1][k2] = v\<close>: the inner object is fetched, changed in place, and stays where it
  was in the outer one.\<close>

definition setitem2 :: "json \<Rightarrow> string \<Rightarrow> string \<Rightarrow> json \<Rightarrow> error + json" where
  "setitem2 x k1 k2 v =
     seq (getitem x k1) (\<lambda>inner.
     seq (setitem inner k2 v) (\<lambda>inner'.
     setitem x k1 inner'))"


text \<open>\<^verbatim>\<open>x.pop(k, default)\<close>: the value removed (or the default) and the object afterwards. A list
  takes no second argument (\<^verbatim>\<open>TypeError\<close>); the other objects have no \<^verbatim>\<open>pop\<close>.\<close>

fun pop :: "json \<Rightarrow> string \<Rightarrow> json \<Rightarrow> error + (json \<times> json)" where
  "pop (JObj d) k dflt =
     Inr (case map_of d k of None \<Rightarrow> dflt | Some v \<Rightarrow> v, JObj (AList.delete k d))"
| "pop (JArr xs) k dflt = Inl TypeError"
| "pop x k dflt = Inl AttributeError"

text \<open>\<^verbatim>\<open>d.get(k, default)\<close> on a dict.\<close>

definition dict_get :: "pydict \<Rightarrow> string \<Rightarrow> json \<Rightarrow> json" where
  "dict_get d k dflt = (case map_of d k of None \<Rightarrow> dflt | Some v \<Rightarrow> v)"

text \<open>\<^verbatim>\<open>a or b\<close>.\<close>

definition py_or :: "json \<Rightarrow> json \<Rightarrow> json" where
  "py_or a b = (if truthy a then a else b)"

text \<open>\<^verbatim>\<open>int(x)\<close> of a float truncates towards zero.\<close>

definition py_int :: "rat \<Rightarrow> int" where
  "py_int x = (if 0 \<le> x then \<lfloor>x\<rfloor> else \<lceil>x\<rceil>)"

text \<open>\<^verbatim>\<open>round(x, 3)\<close>: the nearest multiple of one thousandth, a tie going to the even one.\<close>

definition round_half_even :: "rat \<Rightarrow> int" where
  "round_half_even x =
     (let f = \<lfloor>x\<rfloor>; d = x - of_int f
      in if d < 1 / 2 then f
         else if 1 / 2 < d then f + 1
         else if even f then f else f + 1)"

definition py_round3 :: "rat \<Rightarrow> rat" where
  "py_round3 x = of_int (round_half_even (x * 1000)) / 1000"

text \<open>\<^verbatim>\<open>str(n)\<close> of an integer: decimal digits, with a minus sign when negative.\<close>

fun str_nat :: "nat \<Rightarrow> string" where
  "str_nat n =
     (if n < 10 then [char_of (48 + n)]
      else str_nat (n div 10) @ [char_of (48 + n mod 10)])"

declare str_nat.simps [simp del]

definition str_int :: "int \<Rightarrow> string" where
  "str_int i = (if i < 0 then CHR ''-'' # str_nat (nat (- i)) else str_nat (nat i))"

text \<open>\<^verbatim>\<open>k.lower()\<close>, on ASCII letters.\<close>

definition lower_char :: "char \<Rightarrow> char" where
  "lower_char c =
     (let n = (of_char c :: nat) in if 65 \<le> n \<and> n \<le> 90 then char_of (n + 32) else c)"

definition py_lower :: "string \<Rightarrow> string" where
  "py_lower s = map lower_char s"

subsection \<open>Versions\<close>

text \<open>
  \<^verbatim>\<open>parse_version\<close> belongs to the qcelemental library; it returns a PEP 440 version, and
  the harness only compares such versions with \<^verbatim>\<open><\<close>. A version is its epoch, release
  numbers, pre-release tag (\<^verbatim>\<open>a\<close>, \<^verbatim>\<open>b\<close>, \<^verbatim>\<open>rc\<close>), post-release and development
  numbers (local labels are left out); the order is that of the library's comparison key:
  trailing zeros of the release dropped, a development release without pre- or post-release
  part sorts before every pre-release, a missing pre-release after them, a missing
  post-release first, a missing development number last.
\<close>

datatype pre_tag = Alpha | Beta | RC

record version =
  epoch :: nat
  release :: "nat list"
  pre :: "(pre_tag \<times> nat) option"
  post :: "nat option"
  dev :: "nat option"

fun tag_rank :: "pre_tag \<Rightarrow> nat" where
  "tag_rank Alpha = 0"
| "tag_rank Beta = 1"
| "tag_rank RC = 2"

definition pre_key :: "version \<Rightarrow> nat \<times> nat \<times> nat" where
  "pre_key v =
     (case pre v of
        Some (t, n) \<Rightarrow> (1, tag_rank t, n)
      | None \<Rightarrow>
          (case post v of
             Some p \<Rightarrow> (2, 0, 0)
           | None \<Rightarrow> (case dev v of Some d \<Rightarrow> (0, 0, 0) | None \<Rightarrow> (2, 0, 0))))"

definition post_key :: "version \<Rightarrow> nat \<times> nat" where
  "post_key v = (case post v of None \<Rightarrow> (0, 0) | Some p \<Rightarrow> (1, p))"

definition dev_key :: "version \<Rightarrow> nat \<times> nat" where
  "dev_key v = (case dev v of None \<Rightarrow> (1, 0) | Some d \<Rightarrow> (0, d))"

definition cmpkey ::
  "version \<Rightarrow> nat \<times> nat list \<times> (nat \<times> nat \<times> nat) \<times> (nat \<times> nat) \<times> (nat \<times> nat)" where
  "cmpkey v =
     (epoch v, rev (dropWhile (\<lambda>x. x = 0) (rev (release v))), pre_key v, post_key v, dev_key v)"

definition version_lt :: "version \<Rightarrow> version \<Rightarrow> bool" where
  "version_lt a b = (cmpkey a < cmpkey b)"

text \<open>The two thresholds of the harness: \<^verbatim>\<open>parse_version("1.2")\<close> and
  \<^verbatim>\<open>parse_version("1.4a2.dev160")\<close>.\<close>

definition v_min :: version where
  "v_min = \<lparr>epoch = 0, release = [1, 2], pre = None, post = None, dev = None\<rparr>"

definition v_modern :: version where
  "v_modern = \<lparr>epoch = 0, release = [1, 4], pre = Some (Alpha, 2), post = None, dev = Some 160\<rparr>"

subsection \<open>Error dispatch (the block under \<^verbatim>\<open>if compute_success is False\<close>)\<close>

definition dispatch_errors :: "json \<Rightarrow> json \<Rightarrow> error" where
  "dispatch_errors error_message error_type =
     (case py_in ''PSIO Error'' error_message of
        Inl e \<Rightarrow> e
      | Inr psio \<Rightarrow>
          if psio then
            (case py_in ''scratch directory'' error_message of
               Inl e \<Rightarrow> e
             | Inr scr \<Rightarrow>
                 if scr then ResourceError error_message else RandomError error_message)
          else
            (case py_any_in [''SIGSEV'', ''SIGSEGV'', ''segmentation fault''] error_message of
               Inl e \<Rightarrow> e
             | Inr sig \<Rightarrow>
                 if sig then RandomError error_message
                 else
                   (case py_in ''TypeError: set_global_option'' error_message of
                      Inl e \<Rightarrow> e
                    | Inr opt \<Rightarrow>
                        if opt \<or> error_type = JStr ''ValidationError''
                        then InputError error_message
                        else
                          (case py_in ''RHF reference is only for singlets'' error_message of
                             Inl e \<Rightarrow> e
                           | Inr rhf \<Rightarrow>
                               if rhf then InputError error_message
                               else UnknownError error_message))))"

subsection \<open>Requests, task configuration and the environment\<close>

text \<open>
  \<^verbatim>\<open>AtomicInput\<close> and \<^verbatim>\<open>TaskConfig\<close> are declared in other packages; the records keep
  the fields the harness reads or writes, and \<open>to_dict\<close> stands for \<^verbatim>\<open>input_model.dict()\<close>,
  which lists the fields of the request by name.
\<close>

record molecule =
  molecular_multiplicity :: int
  molecule_fields :: pydict

record model_spec =
  method_name :: string
  basis :: json

record atomic_input =
  input_id :: json
  schema_name :: string
  schema_version :: int
  molecule :: molecule
  driver :: string
  model :: model_spec
  keywords_dict :: pydict
  protocols :: json
  extras :: pydict
  provenance :: json

record task_config =
  ncores :: int
  memory :: rat
  scratch_directory :: "string option"

definition to_dict :: "atomic_input \<Rightarrow> pydict" where
  "to_dict input_model =
     [(''id'', input_id input_model),
      (''schema_name'', JStr (schema_name input_model)),
      (''schema_version'', JInt (schema_version input_model)),
      (''molecule'',
         JObj ((''molecular_multiplicity'', JInt (molecular_multiplicity (molecule input_model)))
               # molecule_fields (molecule input_model))),
      (''driver'', JStr (driver input_model)),
      (''model'',
         JObj [(''method'', JStr (method_name (model input_model))),
               (''basis'', basis (model input_model))]),
      (''keywords'', JObj (keywords_dict input_model)),
      (''protocols'', protocols input_model),
      (''extras'', JObj (extras input_model)),
      (''provenance'', provenance input_model)]"

text \<open>A staged or returned file: JSON text (\<^verbatim>\<open>json.dumps\<close> of a value), \<^verbatim>\<open>msgpack-ext\<close> bytes
  (the serialisation of a value), or text that is neither.\<close>

datatype file_content = JsonText json | MsgpackBytes json | RawText string

record exec_output =
  stdout :: string
  stderr :: string
  outfiles :: "(string \<times> file_content option) list"

text \<open>The state of the in-process engine that the embedded call touches.\<close>

record world =
  default_path :: string
  num_threads :: int
  psi4_memory :: string

text \<open>What the harness does to the file system and to other processes, in order:
  \<open>MkTmpDir parent suffix dir\<close>, \<open>RmTmpDir dir\<close>, and
  \<open>Execute command infiles outfiles as_binary scratch_directory\<close>.\<close>

datatype event =
    MkTmpDir "string option" string string
  | RmTmpDir string
  | Execute "string list" "(string \<times> file_content) list" "string list" "string list" string

text \<open>
  The collaborators of \<^verbatim>\<open>compute\<close>, as parameters: whether \<^verbatim>\<open>found(raise_error=True)\<close>
  passes, \<^verbatim>\<open>which("psi4")\<close>, the version text reported by the engine, \<^verbatim>\<open>parse_version\<close>,
  \<^verbatim>\<open>$PSI_SCRATCH\<close>, \<^verbatim>\<open>temporary_directory\<close> (the directory it creates, or \<open>None\<close> when it
  cannot), \<^verbatim>\<open>execute\<close>, the text of a float in an f-string, whether \<^verbatim>\<open>import psi4\<close>
  succeeds, and \<^verbatim>\<open>psi4.schema_wrapper.run_qcschema(...).dict()\<close>, which may raise and may
  change the engine's state. The short commands with which \<^verbatim>\<open>found\<close> and \<^verbatim>\<open>get_version\<close>
  locate the engine and read its version (\<^verbatim>\<open>psi4 --version\<close>, cached per executable) are
  inside the first four parameters; the trace of a call records the scratch directory and
  the commands that compute.
\<close>

record env =
  found :: bool
  which_psi4 :: string
  candidate_version :: string
  parse_version :: "string \<Rightarrow> version"
  psi_scratch :: "string option"
  temporary_directory :: "string option \<Rightarrow> string \<Rightarrow> string option"
  execute ::
    "string list \<Rightarrow> (string \<times> file_content) list \<Rightarrow> string list \<Rightarrow> string list \<Rightarrow> string
      \<Rightarrow> bool \<times> exec_output"
  float_str :: "rat \<Rightarrow> string"
  import_psi4 :: bool
  run_qcschema :: "atomic_input \<Rightarrow> world \<Rightarrow> (error + json) \<times> world"

text \<open>\<^verbatim>\<open>output["outfiles"][name]\<close>, \<^verbatim>\<open>json.loads\<close> and
  \<^verbatim>\<open>deserialize(..., "msgpack-ext")\<close> on what came back.\<close>

definition outfile :: "exec_output \<Rightarrow> string \<Rightarrow> error + file_content option" where
  "outfile output name =
     (case map_of (outfiles output) name of None \<Rightarrow> Inl (KeyError name) | Some c \<Rightarrow> Inr c)"

fun json_loads :: "file_content option \<Rightarrow> error + json" where
  "json_loads None = Inl TypeError"
| "json_loads (Some (JsonText v)) = Inr v"
| "json_loads (Some c) = Inl (External ''JSONDecodeError'')"

fun deserialize :: "file_content option \<Rightarrow> error + json" where
  "deserialize None = Inl TypeError"
| "deserialize (Some (MsgpackBytes v)) = Inr v"
| "deserialize (Some c) = Inl (External ''msgpack'')"

subsection \<open>\<^verbatim>\<open>get_version\<close>\<close>

text \<open>The version text of the engine that was found, refused when it contains \<^verbatim>\<open>undef\<close>.\<close>

definition get_version :: "env \<Rightarrow> error + string" where
  "get_version env =
     (if found env then
        (if str_in ''undef'' (candidate_version env) then Inl UntaggedBuild
         else Inr (candidate_version env))
      else Inl ModuleNotFoundError)"

subsection \<open>\<^verbatim>\<open>compute\<close>: preparation of the request\<close>

text \<open>\<^verbatim>\<open>input_model.model.__dict__["basis"] = old_basis or ""\<close>: written into the caller's
  request.\<close>

definition set_basis :: "atomic_input \<Rightarrow> atomic_input" where
  "set_basis input_model =
     input_model\<lparr>model := (model input_model)
       \<lparr>basis := py_or (basis (model input_model)) (JStr [])\<rparr>\<rparr>"

text \<open>The first statements under \<^verbatim>\<open>with temporary_directory(...)\<close>:
  \<^verbatim>\<open>input_model.keywords["reference"] = "uhf"\<close> is a store into the caller's mapping.\<close>

definition inject_reference :: "atomic_input \<Rightarrow> atomic_input" where
  "inject_reference input_model =
     (let caseless_keywords = map (\<lambda>(k, v). (py_lower k, v)) (keywords_dict input_model)
      in if molecular_multiplicity (molecule input_model) \<noteq> 1
            \<and> map_of caseless_keywords ''reference'' = None
         then input_model\<lparr>keywords_dict :=
                AList.update ''reference'' (JStr ''uhf'') (keywords_dict input_model)\<rparr>
         else input_model)"

subsection \<open>The JSON command line of the old engines\<close>

definition legacy_input_data :: "atomic_input \<Rightarrow> task_config \<Rightarrow> pydict" where
  "legacy_input_data input_model config =
     (let d0 = to_dict input_model;
          d1 = AList.update ''nthreads'' (JInt (ncores config)) d0;
          d2 = AList.update ''memory''
                 (JInt (py_int (memory config * 1024 * 1024 * 1024 * (95 / 100)))) d1;
          d3 = AList.update ''success'' (JBool False) d2;
          d4 = AList.update ''return_output'' (JBool True) d3
      in if map_of d4 ''schema_name'' = Some (JStr ''qcschema_input'')
         then AList.update ''schema_name'' (JStr ''qc_schema_input'') d4
         else d4)"

definition legacy_command :: "env \<Rightarrow> string \<Rightarrow> string list" where
  "legacy_command env tmpdir = [which_psi4 env, ''--scratch'', tmpdir, ''--json'', ''data.json'']"

text \<open>The block \<^verbatim>\<open>if "extras" not in output_data\<close> ... \<^verbatim>\<open># Check QCVars\<close>.\<close>

definition relocate_qcvars :: "json \<Rightarrow> error + json" where
  "relocate_qcvars output_data =
     seq (py_in ''extras'' output_data) (\<lambda>has_extras.
     seq (if has_extras then Inr output_data else setitem output_data ''extras'' (JObj []))
       (\<lambda>od1.
     seq (pop od1 ''psi4:qcvars'' JNull) (\<lambda>(local_qcvars, od2).
     if truthy local_qcvars then
       seq (getitem od2 ''extras'') (\<lambda>ex.
       seq (py_in ''qcvars'' ex) (\<lambda>occupied.
       if occupied then setitem2 od2 ''extras'' ''local_qcvars'' local_qcvars
       else setitem2 od2 ''extras'' ''qcvars'' local_qcvars))
     else Inr od2)))"

text \<open>\<^verbatim>\<open>if output_data["success"] is False\<close> in the JSON branch: the triple
  \<^verbatim>\<open>(compute_success, error_message, error_type)\<close>; the last two stay \<^verbatim>\<open>None\<close> on success.\<close>

definition legacy_status :: "json \<Rightarrow> error + (bool \<times> json \<times> json)" where
  "legacy_status output_data =
     seq (getitem output_data ''success'') (\<lambda>s.
     if s = JBool False then
       seq (getitem output_data ''error'') (\<lambda>err.
       seq (py_in ''error_message'' err) (\<lambda>has_message.
       if has_message then
         seq (getitem err ''error_message'') (\<lambda>em.
         seq (getitem err ''error_type'') (\<lambda>et.
         Inr (False, em, et)))
       else Inr (False, err, JStr ''internal_error'')))
     else Inr (True, JNull, JNull))"

text \<open>\<^verbatim>\<open># Reset the schema if required\<close>.\<close>

definition reset_schema :: "json \<Rightarrow> error + json" where
  "reset_schema output_data =
     seq (setitem output_data ''schema_name'' (JStr ''qcschema_output'')) (\<lambda>od1.
     seq (pop od1 ''memory'' JNull) (\<lambda>(m, od2).
     seq (pop od2 ''nthreads'' JNull) (\<lambda>(n, od3).
     seq (pop od3 ''raw_output'' JNull) (\<lambda>(raw_output, od4).
     setitem od4 ''stdout'' raw_output))))"

text \<open>The value of a protocol branch: an exception, or
  \<^verbatim>\<open>(compute_success, error_message, error_type, output_data)\<close>.\<close>

type_synonym branch_result = "error + (bool \<times> json \<times> json \<times> json)"

definition legacy_protocol ::
  "env \<Rightarrow> atomic_input \<Rightarrow> task_config \<Rightarrow> string \<Rightarrow> branch_result \<times> event list" where
  "legacy_protocol env input_model config tmpdir =
     (let input_data = legacy_input_data input_model config;
          command = legacy_command env tmpdir;
          infiles = [(''data.json'', JsonText (JObj input_data))];
          (success, output) = execute env command infiles [''data.json''] [] tmpdir
      in ((if success then
             seq (outfile output ''data.json'') (\<lambda>raw.
             seq (json_loads raw) (\<lambda>od0.
             seq (relocate_qcvars od0) (\<lambda>od1.
             seq (legacy_status od1) (\<lambda>(compute_success, error_message, error_type).
             seq (reset_schema od1) (\<lambda>od2.
             Inr (compute_success, error_message, error_type, od2))))))
           else
             seq (reset_schema (JObj input_data)) (\<lambda>od.
             Inr (False, JStr (stderr output), JStr ''execution_error'', od))),
          [Execute command infiles [''data.json''] [] tmpdir]))"

subsection \<open>The msgpack command line and the in-process call of the new engines\<close>

definition modern_command :: "env \<Rightarrow> task_config \<Rightarrow> string \<Rightarrow> string list" where
  "modern_command env config tmpdir =
     [which_psi4 env, ''--scratch'', tmpdir,
      ''--nthread'', str_int (ncores config),
      ''--memory'', float_str env (memory config) @ ''GB'',
      ''--qcschema'', ''data.msgpack'']"

text \<open>\<^verbatim>\<open>if output_data["success"] is False\<close> in the second branch.\<close>

definition modern_status :: "json \<Rightarrow> error + (bool \<times> json \<times> json)" where
  "modern_status output_data =
     seq (getitem output_data ''success'') (\<lambda>s.
     if s = JBool False then
       seq (getitem output_data ''error'') (\<lambda>err.
       seq (getitem err ''error_message'') (\<lambda>em.
       seq (getitem err ''error_type'') (\<lambda>et.
       Inr (False, em, et))))
     else Inr (True, JNull, JNull))"

definition modern_protocol ::
  "env \<Rightarrow> atomic_input \<Rightarrow> task_config \<Rightarrow> string \<Rightarrow> branch_result \<times> event list" where
  "modern_protocol env input_model config tmpdir =
     (let run_cmd = modern_command env config tmpdir;
          input_files = [(''data.msgpack'', MsgpackBytes (JObj (to_dict input_model)))];
          (success, output) =
             execute env run_cmd input_files [''data.msgpack''] [''data.msgpack''] tmpdir
      in ((if success then
             seq (outfile output ''data.msgpack'') (\<lambda>raw.
             seq (deserialize raw) (\<lambda>output_data.
             seq (modern_status output_data) (\<lambda>(compute_success, error_message, error_type).
             Inr (compute_success, error_message, error_type, output_data))))
           else
             Inr (False, JStr (stderr output), JStr ''execution_error'',
                  JObj (to_dict input_model))),
          [Execute run_cmd input_files [''data.msgpack''] [''data.msgpack''] tmpdir]))"

text \<open>The branch \<^verbatim>\<open>if input_model.extras.get("psiapi", False)\<close>. The statement that would
  point the engine at the scratch directory is commented out in the source, so the default
  path changes only if the engine changes it; it is put back by the last statement, which
  an exception raised before it skips.\<close>

definition embedded_call ::
  "env \<Rightarrow> world \<Rightarrow> atomic_input \<Rightarrow> task_config \<Rightarrow> branch_result \<times> world" where
  "embedded_call env w input_model config =
     (if import_psi4 env then
        (let orig_scr = default_path w;
             w1 = w\<lparr>num_threads := ncores config\<rparr>;
             w2 = w1\<lparr>psi4_memory := float_str env (memory config) @ ''GB''\<rparr>;
             (returned, w3) = run_qcschema env input_model w2
         in case returned of
              Inl e \<Rightarrow> (Inl e, w3)
            | Inr od0 \<Rightarrow>
                (case setitem2 od0 ''extras'' ''psiapi_evaluated'' (JBool True) of
                   Inl e \<Rightarrow> (Inl e, w3)
                 | Inr output_data \<Rightarrow>
                     (seq (modern_status output_data)
                        (\<lambda>(compute_success, error_message, error_type).
                           Inr (compute_success, error_message, error_type, output_data)),
                      w3\<lparr>default_path := orig_scr\<rparr>)))
      else (Inl ModuleNotFoundError, w))"

subsection \<open>\<^verbatim>\<open>compute\<close>\<close>

text \<open>The statements after the error dispatch. The result is \<^verbatim>\<open>output_data\<close>, the
  dictionary whose entries become the keyword arguments of \<^verbatim>\<open>AtomicResult\<close>.\<close>

definition finalize :: "json \<Rightarrow> task_config \<Rightarrow> json \<Rightarrow> error + json" where
  "finalize old_basis config output_data =
     seq (setitem2 output_data ''model'' ''basis'' old_basis) (\<lambda>od1.
     seq (setitem2 od1 ''provenance'' ''memory'' (JNum (py_round3 (memory config)))) (\<lambda>od2.
     seq (setitem2 od2 ''provenance'' ''nthreads'' (JInt (ncores config))) (\<lambda>od3.
     seq (pop od3 ''return_output'' JNull) (\<lambda>(r, od4).
     Inr od4))))"

text \<open>What a call leaves behind: the value returned or the exception raised, the caller's
  request object, the engine state, and the trace of file-system and process events.\<close>

record outcome =
  result :: "error + json"
  input_after :: atomic_input
  world_after :: world
  trace :: "event list"

definition version_message :: "string \<Rightarrow> json" where
  "version_message v =
     JStr (''Psi4 version '' @ [CHR 0x27] @ v @ [CHR 0x27] @ '' not understood.'')"

definition run_protocol ::
  "env \<Rightarrow> world \<Rightarrow> version \<Rightarrow> atomic_input \<Rightarrow> task_config \<Rightarrow> string
    \<Rightarrow> branch_result \<times> world \<times> event list" where
  "run_protocol env w pversion input_model config tmpdir =
     (if version_lt pversion v_modern then
        (let (r, evs) = legacy_protocol env input_model config tmpdir in (r, w, evs))
      else if truthy (dict_get (extras input_model) ''psiapi'' (JBool False)) then
        (let (r, w') = embedded_call env w input_model config in (r, w', []))
      else
        (let (r, evs) = modern_protocol env input_model config tmpdir in (r, w, evs)))"

definition conclude :: "json \<Rightarrow> task_config \<Rightarrow> branch_result \<Rightarrow> error + json" where
  "conclude old_basis config r =
     (case r of
        Inl e \<Rightarrow> Inl e
      | Inr (compute_success, error_message, error_type, output_data) \<Rightarrow>
          if compute_success then finalize old_basis config output_data
          else Inl (dispatch_errors error_message error_type))"

text \<open>\<^verbatim>\<open># Location resolution order config.scratch_dir, $PSI_SCRATCH, /tmp\<close>: the parent
  handed to \<^verbatim>\<open>temporary_directory\<close>, which falls back to the platform's own when given
  \<^verbatim>\<open>None\<close>.\<close>

definition scratch_parent :: "env \<Rightarrow> task_config \<Rightarrow> string option" where
  "scratch_parent env config =
     (case scratch_directory config of None \<Rightarrow> psi_scratch env | Some p \<Rightarrow> Some p)"

definition compute :: "env \<Rightarrow> world \<Rightarrow> atomic_input \<Rightarrow> task_config \<Rightarrow> outcome" where
  "compute env w input_model config =
     (case get_version env of
        Inl e \<Rightarrow> \<lparr>result = Inl e, input_after = input_model, world_after = w, trace = []\<rparr>
      | Inr v \<Rightarrow>
          (let pversion = parse_version env v in
           if version_lt pversion v_min then
             \<lparr>result = Inl (ResourceError (version_message v)),
              input_after = input_model, world_after = w, trace = []\<rparr>
           else
             (let parent = scratch_parent env config;
                  old_basis = basis (model input_model);
                  input_model1 = set_basis input_model
              in case temporary_directory env parent ''_psi_scratch'' of
                   None \<Rightarrow>
                     \<lparr>result = Inl (External ''temporary_directory''),
                      input_after = input_model1, world_after = w, trace = []\<rparr>
                 | Some tmpdir \<Rightarrow>
                     (let input_model2 = inject_reference input_model1;
                          (r, w', evs) = run_protocol env w pversion input_model2 config tmpdir
                      in \<lparr>result = conclude old_basis config r,
                          input_after = input_model2, world_after = w',
                          trace = MkTmpDir parent ''_psi_scratch'' tmpdir
                                    # evs @ [RmTmpDir tmpdir]\<rparr>))))"

subsection \<open>Scenarios\<close>

text \<open>Concrete collaborators and requests on which the model is run: an engine of a given
  version whose command line always answers the same, a doublet request without keywords and
  without basis, and a task of four cores and 1.23456 GB.\<close>

definition v_1_1 :: version where
  "v_1_1 = \<lparr>epoch = 0, release = [1, 1], pre = None, post = None, dev = None\<rparr>"

definition v_1_3 :: version where
  "v_1_3 = \<lparr>epoch = 0, release = [1, 3], pre = None, post = None, dev = None\<rparr>"

definition v_1_4a2_dev200 :: version where
  "v_1_4a2_dev200 =
     \<lparr>epoch = 0, release = [1, 4], pre = Some (Alpha, 2), post = None, dev = Some 200\<rparr>"

definition w0 :: world where
  "w0 = \<lparr>default_path = ''/tmp'', num_threads = 1, psi4_memory = ''500MiB''\<rparr>"

definition cfg0 :: task_config where
  "cfg0 = \<lparr>ncores = 4, memory = 123456 / 100000, scratch_directory = None\<rparr>"

definition doublet :: atomic_input where
  "doublet =
     \<lparr>input_id = JNull, schema_name = ''qcschema_input'', schema_version = 1,
      molecule = \<lparr>molecular_multiplicity = 2, molecule_fields = [(''symbols'', JArr [JStr ''H''])]\<rparr>,
      driver = ''energy'',
      model = \<lparr>method_name = ''hf3c'', basis = JNull\<rparr>,
      keywords_dict = [], protocols = JObj [], extras = [], provenance = JObj []\<rparr>"

text \<open>What a run of the engine sends back: a result that echoes its own resource figures.\<close>

definition raw_result :: pydict where
  "raw_result =
     [(''success'', JBool True),
      (''model'', JObj [(''method'', JStr ''hf3c''), (''basis'', JStr [])]),
      (''provenance'', JObj [(''creator'', JStr ''Psi4''), (''memory'', JNum (1 / 2)),
                            (''nthreads'', JInt 1)]),
      (''extras'', JObj [(''qcvars'', JObj [(''old'', JInt 1)])]),
      (''psi4:qcvars'', JObj [(''CURRENT ENERGY'', JInt (- 1))]),
      (''return_result'', JInt (- 1))]"

definition engine :: "version \<Rightarrow> bool \<times> exec_output \<Rightarrow> env" where
  "engine v answer =
     \<lparr>found = True, which_psi4 = ''/bin/psi4'', candidate_version = ''x'',
      parse_version = (\<lambda>s. v), psi_scratch = None,
      temporary_directory = (\<lambda>parent suffix. Some (''/tmp/t0'' @ suffix)),
      execute = (\<lambda>command infiles outs as_binary scratch. answer),
      float_str = (\<lambda>r. ''1.23456''),
      import_psi4 = True,
      run_qcschema = (\<lambda>input_model w. (Inr (JObj raw_result), w))\<rparr>"

text \<open>An engine whose in-process entry point moves the default path to the directory of
  the job and then ends as given: with an exception, or with a returned record.\<close>

definition embedded_engine :: "error + json \<Rightarrow> env" where
  "embedded_engine ending =
     (engine v_1_4a2_dev200 (False, \<lparr>stdout = [], stderr = [], outfiles = []\<rparr>))
       \<lparr>run_qcschema := (\<lambda>input_model w. (ending, w\<lparr>default_path := ''/scratch/job''\<rparr>))\<rparr>"

definition embedded_request :: atomic_input where
  "embedded_request = doublet\<lparr>extras := [(''psiapi'', JBool True)]\<rparr>"

text \<open>The record of a failed operation, as the entry point returns it: no extras.\<close>

definition failed_operation :: json where
  "failed_operation =
     JObj [(''success'', JBool False),
           (''error'', JObj [(''error_type'', JStr ''RuntimeError''),
                             (''error_message'', JStr ''SCF did not converge'')]),
           (''extras'', JNull)]"

text \<open>A command that fails, with the given text on its standard error.\<close>

definition crashed :: "string \<Rightarrow> bool \<times> exec_output" where
  "crashed message =
     (False, \<lparr>stdout = [], stderr = message, outfiles = [(''data.json'', None)]\<rparr>)"

definition answer_msgpack :: "bool \<times> exec_output" where
  "answer_msgpack =
     (True, \<lparr>stdout = [], stderr = [],
             outfiles = [(''data.msgpack'', Some (MsgpackBytes (JObj raw_result)))]\<rparr>)"







section \<open>Properties\<close>

subsection \<open>Substring test\<close>

lemma str_in_iff_sublist: "str_in needle hay \<longleftrightarrow> sublist needle hay"
  by (induction hay) (auto simp: sublist_Cons_right)

subsection \<open>Versions, dictionaries and the shape of a successful call\<close>












lemma basis_inject_reference [simp]: "model (inject_reference im) = model im"
  by (simp add: inject_reference_def Let_def)

lemma extras_prepared [simp]: "extras (inject_reference (set_basis im)) = extras im"
  by (simp add: inject_reference_def set_basis_def Let_def)





lemma update_absent: "k \<notin> fst ` set al \<Longrightarrow> AList.update k v al = al @ [(k, v)]"
  by (induction al) auto

lemma py_lower_reference: "py_lower ''reference'' = ''reference''"
  by code_simp

lemma caseless_lookup:
  "map_of (map (\<lambda>(k, v). (py_lower k, v)) al) key = None \<longleftrightarrow> key \<notin> py_lower ` fst ` set al"
  by (force simp: map_of_eq_None_iff image_iff)

lemma keywords_inject_reference:
  "keywords_dict (inject_reference im) =
     (if molecular_multiplicity (molecule im) \<noteq> 1
         \<and> ''reference'' \<notin> py_lower ` fst ` set (keywords_dict im)
      then keywords_dict im @ [(''reference'', JStr ''uhf'')]
      else keywords_dict im)"
proof -
  have "''reference'' \<notin> fst ` set (keywords_dict im)"
    if "''reference'' \<notin> py_lower ` fst ` set (keywords_dict im)"
    using that py_lower_reference by (metis image_eqI)
  then show ?thesis
    by (simp add: inject_reference_def Let_def caseless_lookup update_absent)
qed

lemma input_after_compute:
  "input_after (compute env w input_model config) =
     (case get_version env of
        Inl e \<Rightarrow> input_model
      | Inr v \<Rightarrow>
          if version_lt (parse_version env v) v_min then input_model
          else
            (case temporary_directory env (scratch_parent env config) ''_psi_scratch'' of
               None \<Rightarrow> set_basis input_model
             | Some tmpdir \<Rightarrow> inject_reference (set_basis input_model)))"
  by (simp add: compute_def Let_def split: sum.splits option.splits prod.splits)

lemma set_basis_unfold:
  "set_basis input_model =
     input_model\<lparr>model := (model input_model)
       \<lparr>basis := (if truthy (basis (model input_model))
                  then basis (model input_model) else JStr [])\<rparr>\<rparr>"
  by (simp add: set_basis_def py_or_def)

lemma inject_reference_unfold:
  "inject_reference (set_basis input_model) =
     (set_basis input_model)\<lparr>keywords_dict :=
        (if molecular_multiplicity (molecule input_model) \<noteq> 1
            \<and> ''reference'' \<notin> py_lower ` fst ` set (keywords_dict input_model)
         then keywords_dict input_model @ [(''reference'', JStr ''uhf'')]
         else keywords_dict input_model)\<rparr>"
proof -
  have k: "inject_reference im = im\<lparr>keywords_dict := keywords_dict (inject_reference im)\<rparr>" for im
    by (simp add: inject_reference_def Let_def)
  show ?thesis
    by (subst k) (simp add: keywords_inject_reference set_basis_def)
qed

lemma embedded_call_restores:
  assumes "import_psi4 env"
    and "run_qcschema env input_model
           (w\<lparr>num_threads := ncores config,
              psi4_memory := float_str env (memory config) @ ''GB''\<rparr>) = (Inr od, w')"
    and "setitem2 od ''extras'' ''psiapi_evaluated'' (JBool True) = Inr output_data"
  shows "default_path (snd (embedded_call env w input_model config)) = default_path w"
  using assms by (simp add: embedded_call_def Let_def)

















subsection \<open>Classification of failure messages\<close>

text \<open>
  C1. When the run has failed with a message (a string) that contains the storage marker
  \<^verbatim>\<open>PSIO Error\<close>, the dispatch raises \<^verbatim>\<open>ResourceError\<close> if the message also mentions
  \<^verbatim>\<open>scratch directory\<close>, and \<^verbatim>\<open>RandomError\<close> if it does not; the error type plays no part.
\<close>

theorem psio_dispatch:
  assumes "sublist ''PSIO Error'' m"
  shows "dispatch_errors (JStr m) error_type =
           (if sublist ''scratch directory'' m
            then ResourceError (JStr m) else RandomError (JStr m)) \<and>
         conclude old_basis config (Inr (False, JStr m, error_type, output_data)) =
           Inl (if sublist ''scratch directory'' m
                then ResourceError (JStr m) else RandomError (JStr m))"
  using assms by (simp add: conclude_def dispatch_errors_def str_in_iff_sublist)

theorem psio_dispatch_witness:
  "sublist ''PSIO Error'' ''PSIO Error: random I/O fault'' \<and>
   dispatch_errors (JStr ''PSIO Error: random I/O fault'') (JStr ''execution_error'') =
     RandomError (JStr ''PSIO Error: random I/O fault'') \<and>
   sublist ''PSIO Error'' ''PSIO Error: cannot open scratch directory'' \<and>
   dispatch_errors (JStr ''PSIO Error: cannot open scratch directory'') (JStr ''execution_error'') =
     ResourceError (JStr ''PSIO Error: cannot open scratch directory'')"
proof -
  have h: "sublist ''PSIO Error'' ''PSIO Error: random I/O fault''"
    unfolding str_in_iff_sublist [symmetric] by simp
  have n: "\<not> sublist ''scratch directory'' ''PSIO Error: random I/O fault''"
    unfolding str_in_iff_sublist [symmetric] by simp
  have h': "sublist ''PSIO Error'' ''PSIO Error: cannot open scratch directory''"
    unfolding str_in_iff_sublist [symmetric] by simp
  have y: "sublist ''scratch directory'' ''PSIO Error: cannot open scratch directory''"
    unfolding str_in_iff_sublist [symmetric] by simp
  from psio_dispatch [OF h, of "JStr ''execution_error''"]
    psio_dispatch [OF h', of "JStr ''execution_error''"] n y h h'
  show ?thesis by simp
qed

text \<open>
  C2 (as amended). When the run has failed with a message that contains a fatal-signal
  marker (\<^verbatim>\<open>SIGSEV\<close>, \<^verbatim>\<open>SIGSEGV\<close> or \<^verbatim>\<open>segmentation fault\<close>), the dispatch raises
  \<^verbatim>\<open>RandomError\<close>, unless the message contains both \<^verbatim>\<open>PSIO Error\<close> and
  \<^verbatim>\<open>scratch directory\<close>: the storage test comes first in the chain, and such a message
  raises \<^verbatim>\<open>ResourceError\<close>, as the counterexample shows on the dispatch and on a whole call
  whose command fails with that text on its standard error.
\<close>

theorem signal_dispatch:
  assumes "sublist ''SIGSEV'' m \<or> sublist ''SIGSEGV'' m \<or> sublist ''segmentation fault'' m"
    and "\<not> (sublist ''PSIO Error'' m \<and> sublist ''scratch directory'' m)"
  shows "dispatch_errors (JStr m) error_type = RandomError (JStr m) \<and>
         conclude old_basis config (Inr (False, JStr m, error_type, output_data)) =
           Inl (RandomError (JStr m))"
  using assms by (auto simp: conclude_def dispatch_errors_def str_in_iff_sublist)

theorem signal_dispatch_witness:
  "(sublist ''SIGSEV'' ''Fatal signal: SIGSEGV'' \<or> sublist ''SIGSEGV'' ''Fatal signal: SIGSEGV''
      \<or> sublist ''segmentation fault'' ''Fatal signal: SIGSEGV'') \<and>
   \<not> (sublist ''PSIO Error'' ''Fatal signal: SIGSEGV''
        \<and> sublist ''scratch directory'' ''Fatal signal: SIGSEGV'') \<and>
   dispatch_errors (JStr ''Fatal signal: SIGSEGV'') JNull
     = RandomError (JStr ''Fatal signal: SIGSEGV'')"
proof -
  have a: "sublist ''SIGSEV'' ''Fatal signal: SIGSEGV'' \<or> sublist ''SIGSEGV'' ''Fatal signal: SIGSEGV''
      \<or> sublist ''segmentation fault'' ''Fatal signal: SIGSEGV''"
    unfolding str_in_iff_sublist [symmetric] by simp
  have b: "\<not> (sublist ''PSIO Error'' ''Fatal signal: SIGSEGV''
              \<and> sublist ''scratch directory'' ''Fatal signal: SIGSEGV'')"
    unfolding str_in_iff_sublist [symmetric] by simp
  from signal_dispatch [OF a b, of JNull] a b show ?thesis by blast
qed

lemma run_crashed:
  "result (compute (engine v_1_3 (crashed ''PSIO Error: scratch directory lost (SIGSEGV)''))
     w0 doublet cfg0)
   = Inl (ResourceError (JStr ''PSIO Error: scratch directory lost (SIGSEGV)''))"
  by code_simp

theorem signal_dispatch_counterexample:
  "sublist ''SIGSEGV'' ''PSIO Error: scratch directory lost (SIGSEGV)'' \<and>
   dispatch_errors (JStr ''PSIO Error: scratch directory lost (SIGSEGV)'') (JStr ''execution_error'')
     = ResourceError (JStr ''PSIO Error: scratch directory lost (SIGSEGV)'') \<and>
   dispatch_errors (JStr ''PSIO Error: scratch directory lost (SIGSEGV)'') (JStr ''execution_error'')
     \<noteq> RandomError (JStr ''PSIO Error: scratch directory lost (SIGSEGV)'') \<and>
   result (compute (engine v_1_3 (crashed ''PSIO Error: scratch directory lost (SIGSEGV)''))
     w0 doublet cfg0)
     = Inl (ResourceError (JStr ''PSIO Error: scratch directory lost (SIGSEGV)''))"
proof -
  have "sublist ''SIGSEGV'' ''PSIO Error: scratch directory lost (SIGSEGV)''"
    unfolding str_in_iff_sublist [symmetric] by simp
  moreover have
    "dispatch_errors (JStr ''PSIO Error: scratch directory lost (SIGSEGV)'')
       (JStr ''execution_error'')
     = ResourceError (JStr ''PSIO Error: scratch directory lost (SIGSEGV)'')"
    by (simp add: dispatch_errors_def)
  ultimately show ?thesis using run_crashed by simp
qed

subsection \<open>The version gate\<close>

text \<open>
  C3. When the resolved version is below \<^verbatim>\<open>parse_version("1.2")\<close>, \<^verbatim>\<open>compute\<close> raises
  \<^verbatim>\<open>ResourceError\<close>; the trace is empty, so no scratch directory has been created and no
  command has been executed, and neither the request nor the engine state has changed.
\<close>

theorem version_gate:
  assumes "get_version env = Inr v" and "version_lt (parse_version env v) v_min"
  shows "compute env w input_model config =
           \<lparr>result = Inl (ResourceError (version_message v)),
            input_after = input_model, world_after = w, trace = []\<rparr>"
  using assms by (simp add: compute_def)

theorem version_gate_witness:
  "get_version (engine v_1_1 answer_msgpack) = Inr ''x'' \<and>
   version_lt (parse_version (engine v_1_1 answer_msgpack) ''x'') v_min \<and>
   compute (engine v_1_1 answer_msgpack) w0 doublet cfg0 =
     \<lparr>result = Inl (ResourceError (version_message ''x'')),
      input_after = doublet, world_after = w0, trace = []\<rparr>"
proof -
  have a: "get_version (engine v_1_1 answer_msgpack) = Inr ''x''" by code_simp
  have b: "version_lt (parse_version (engine v_1_1 answer_msgpack) ''x'') v_min" by code_simp
  from version_gate [OF a b] a b show ?thesis by blast
qed

subsection \<open>The command line of the msgpack protocol\<close>



subsection \<open>Provenance\<close>





subsection \<open>The basis of the request\<close>



lemma doublet_basis: "basis (model doublet) = JNull"
  by (simp add: doublet_def)



subsection \<open>What a call does to the caller's request\<close>

text \<open>
  C6 (as amended). A call that fails while resolving the version, or at the version gate,
  leaves the caller's request as it was. Every other call, on every exit path, writes into
  it: the basis is replaced by the empty string when it was null or empty, and, once the
  scratch directory exists, \<^verbatim>\<open>"reference": "uhf"\<close> is appended to the keyword mapping when
  the multiplicity is not 1 and no key is \<^verbatim>\<open>reference\<close> in lower case. Nothing else in the
  request changes; it is unchanged exactly when none of the two rewrites applies.
\<close>

theorem request_after_compute:
  "input_after (compute env w input_model config) =
     (case get_version env of
        Inl e \<Rightarrow> input_model
      | Inr v \<Rightarrow>
          if version_lt (parse_version env v) v_min then input_model
          else
            (let with_basis = input_model\<lparr>model := (model input_model)
                   \<lparr>basis := (if truthy (basis (model input_model))
                              then basis (model input_model) else JStr [])\<rparr>\<rparr>
             in case temporary_directory env (scratch_parent env config) ''_psi_scratch'' of
                  None \<Rightarrow> with_basis
                | Some tmpdir \<Rightarrow>
                    with_basis\<lparr>keywords_dict :=
                      (if molecular_multiplicity (molecule input_model) \<noteq> 1
                          \<and> ''reference'' \<notin> py_lower ` fst ` set (keywords_dict input_model)
                       then keywords_dict input_model @ [(''reference'', JStr ''uhf'')]
                       else keywords_dict input_model)\<rparr>))"
  unfolding input_after_compute inject_reference_unfold Let_def
  unfolding set_basis_unfold ..

theorem request_mutated_counterexample:
  "keywords_dict doublet = [] \<and>
   keywords_dict (input_after (compute (engine v_1_4a2_dev200 answer_msgpack) w0 doublet cfg0))
     = [(''reference'', JStr ''uhf'')] \<and>
   basis (model doublet) = JNull \<and>
   basis (model (input_after (compute (engine v_1_4a2_dev200 answer_msgpack) w0 doublet cfg0)))
     = JStr [] \<and>
   input_after (compute (engine v_1_4a2_dev200 answer_msgpack) w0 doublet cfg0) \<noteq> doublet"
proof -
  have a: "keywords_dict doublet = []" by (simp add: doublet_def)
  have b: "keywords_dict (input_after (compute (engine v_1_4a2_dev200 answer_msgpack) w0 doublet cfg0))
     = [(''reference'', JStr ''uhf'')]" by code_simp
  have c: "basis (model (input_after (compute (engine v_1_4a2_dev200 answer_msgpack) w0 doublet cfg0)))
     = JStr []" by code_simp
  from a b have "input_after (compute (engine v_1_4a2_dev200 answer_msgpack) w0 doublet cfg0) \<noteq> doublet"
    by auto
  with a b c doublet_basis show ?thesis by blast
qed

subsection \<open>The default path around the in-process call\<close>

text \<open>
  C8 (fails on the code). The in-process branch reads the engine's default path before the
  call and writes it back in its last statement, with no \<^verbatim>\<open>try\<close>/\<^verbatim>\<open>finally\<close> around
  the call. When the entry point moves the default path and then raises, or returns the
  record of a failed operation, whose \<^verbatim>\<open>extras\<close> is \<^verbatim>\<open>None\<close> so that the store of
  \<^verbatim>\<open>psiapi_evaluated\<close> raises \<^verbatim>\<open>TypeError\<close>, the exception leaves \<^verbatim>\<open>compute\<close> with the default
  path still moved.
\<close>

theorem embedded_path_not_restored:
  "default_path w0 = ''/tmp'' \<and>
   result (compute (embedded_engine (Inl (External ''RuntimeError''))) w0 embedded_request cfg0)
     = Inl (External ''RuntimeError'') \<and>
   default_path (world_after
     (compute (embedded_engine (Inl (External ''RuntimeError''))) w0 embedded_request cfg0))
     = ''/scratch/job'' \<and>
   result (compute (embedded_engine (Inr failed_operation)) w0 embedded_request cfg0)
     = Inl TypeError \<and>
   default_path (world_after
     (compute (embedded_engine (Inr failed_operation)) w0 embedded_request cfg0))
     = ''/scratch/job''"
proof -
  have "default_path w0 = ''/tmp''" by (simp add: w0_def)
  moreover have "result (compute (embedded_engine (Inl (External ''RuntimeError''))) w0 embedded_request cfg0)
     = Inl (External ''RuntimeError'')" by code_simp
  moreover have "default_path (world_after
     (compute (embedded_engine (Inl (External ''RuntimeError''))) w0 embedded_request cfg0))
     = ''/scratch/job''" by code_simp
  moreover have "result (compute (embedded_engine (Inr failed_operation)) w0 embedded_request cfg0)
     = Inl TypeError" by code_simp
  moreover have "default_path (world_after
     (compute (embedded_engine (Inr failed_operation)) w0 embedded_request cfg0))
     = ''/scratch/job''" by code_simp
  ultimately show ?thesis by blast
qed

subsection \<open>The memory handed to the old engines\<close>





subsection \<open>The named variables of the JSON protocol\<close>






end
